theory Spec2Isabelle
  imports Complex_Main "HOL-Library.Word"
begin

section \<open>expvarmon: the per-service state of \<^verbatim>\<open>service.go\<close>\<close>

text \<open>
  The development embeds \<^verbatim>\<open>src/service.go\<close>: the \<^verbatim>\<open>Service\<close> struct, its
  methods \<^verbatim>\<open>Update\<close> and \<^verbatim>\<open>Value\<close>, the constructor \<^verbatim>\<open>NewService\<close> and the
  function \<^verbatim>\<open>guessValue\<close>.

  Go values are modelled as follows.
  \<^item> \<^verbatim>\<open>int64\<close> is a 64-bit word, compared through \<open>sint\<close> (two's complement).
  \<^item> \<^verbatim>\<open>float64\<close> is a type parameter \<open>'f\<close>: \<^verbatim>\<open>service.go\<close> never computes with a
    float itself, it only passes floats on, so nothing is assumed about them.
  \<^item> \<^verbatim>\<open>error\<close> is an optional error value, \<open>None\<close> for \<^verbatim>\<open>nil\<close>; a call returning
    \<^verbatim>\<open>(T, error)\<close> is a sum, \<open>Inl\<close> the error.
  \<^item> \<^verbatim>\<open>interface{}\<close> as produced by \<^verbatim>\<open>guessValue\<close> is an optional \<open>go_value\<close>,
    \<open>None\<close> for \<^verbatim>\<open>nil\<close>.
\<close>

subsection \<open>Data\<close>

type_synonym int64 = "64 word"

text \<open>\<^verbatim>\<open>type VarName string\<close> (the conversions \<^verbatim>\<open>VarName(...)\<close> and \<^verbatim>\<open>string(v)\<close> in
  \<^verbatim>\<open>service.go\<close> show it).\<close>

type_synonym VarName = string

text \<open>A Go \<^verbatim>\<open>error\<close>, identified by its message.\<close>

datatype error = Error string

text \<open>The dynamic values \<^verbatim>\<open>guessValue\<close> returns inside an \<^verbatim>\<open>interface{}\<close>. The
  constant \<^verbatim>\<open>0\<close> returned for an empty array has the Go type \<^verbatim>\<open>int\<close>, the other
  integers are \<^verbatim>\<open>int64\<close>.\<close>

datatype 'f go_value =
    GoInt int
  | GoInt64 int64
  | GoFloat64 'f
  | GoBool bool
  | GoString string

text \<open>A \<^verbatim>\<open>*jason.Value\<close> (library \<^verbatim>\<open>github.com/antonholmquist/jason\<close>), seen through the
  five conversions \<^verbatim>\<open>guessValue\<close> calls on it: each field is what the method of the
  same name returns. No relation between the fields is assumed.\<close>

datatype 'f jason_Value =
  JValue
    (Int64: "error + int64")
    (Float64: "error + 'f")
    (Boolean: "error + bool")
    (String: "error + string")
    (Array: "error + 'f jason_Value list")

text \<open>The document \<^verbatim>\<open>FetchExpvar\<close> returns (\<^verbatim>\<open>*Expvar\<close>), seen through the three
  lookups \<^verbatim>\<open>Update\<close> makes on it; a path is the list of its segments.\<close>

record 'f Expvar =
  GetInt64 :: "string list \<Rightarrow> error + int64"
  GetStringArray :: "string list \<Rightarrow> error + string list"
  GetValue :: "string list \<Rightarrow> error + 'f jason_Value"

text \<open>Modelled from the spec: the type \<^verbatim>\<open>Stack\<close> with \<^verbatim>\<open>NewStack\<close>, \<^verbatim>\<open>Push\<close> and
  \<^verbatim>\<open>Front\<close> is not in \<^verbatim>\<open>service.go\<close>. Following section 4.2 of the specification, a
  stack is the retained history, oldest first, with a capacity: \<^verbatim>\<open>Push\<close> appends at the
  tail and evicts the head once the capacity is exceeded; \<^verbatim>\<open>Front\<close> is the most
  recently pushed value, and \<^verbatim>\<open>nil\<close> when nothing was pushed. The running maximum,
  which neither \<^verbatim>\<open>Update\<close> nor \<^verbatim>\<open>Value\<close> reads, is left out.\<close>

record 'f Stack =
  Values :: "'f go_value option list"
  Len :: nat

definition NewStack :: "nat \<Rightarrow> 'f Stack" where
  "NewStack n = \<lparr>Values = [], Len = n\<rparr>"

definition Push :: "'f Stack \<Rightarrow> 'f go_value option \<Rightarrow> 'f Stack" where
  "Push s v =
     (let vs = Values s @ [v]
      in s\<lparr>Values := (if length vs > Len s then tl vs else vs)\<rparr>)"

definition Front :: "'f Stack \<Rightarrow> 'f go_value option" where
  "Front s = (if Values s = [] then None else last (Values s))"

text \<open>The functions of the repository that \<^verbatim>\<open>service.go\<close> calls and that live in other
  files, and the conversion \<^verbatim>\<open>int64(avg)\<close> of a float: they are parameters of the
  model, so every theorem below holds for whatever they compute.\<close>

record 'f deps =
  ToSlice :: "VarName \<Rightarrow> string list"
  Kind :: "VarName \<Rightarrow> string"
  Format :: "'f go_value \<Rightarrow> string \<Rightarrow> string"
  BaseCommand :: "string list \<Rightarrow> string"
  averageJason :: "'f jason_Value list \<Rightarrow> 'f"
  toInt64 :: "'f \<Rightarrow> int64"
  StackLen :: nat

record URL =
  Scheme :: string
  Host :: string
  Path :: string

text \<open>\<^verbatim>\<open>type Service struct\<close>. The map \<^verbatim>\<open>stacks\<close> holds one stack of its own for
  each key (\<^verbatim>\<open>NewService\<close> allocates a new one per name), so it is a map to stacks.
  The file handle and the CSV writer are not modelled: the export at the end of
  \<^verbatim>\<open>Update\<close> reads the state and writes to the file, and changes no other field.\<close>

record 'f Service =
  URL :: URL
  Name :: string
  Cmdline :: string
  vars :: "VarName list"
  stacks :: "VarName \<rightharpoonup> 'f Stack"
  Err :: "error option"
  Restarted :: bool
  UptimeCounter :: int64

subsection \<open>Operations\<close>

text \<open>\<^verbatim>\<open>uptimeCounter = VarName("memstats.PauseTotalNs").ToSlice()\<close>\<close>

definition uptimeCounter :: "'f deps \<Rightarrow> string list" where
  "uptimeCounter D = ToSlice D ''memstats.PauseTotalNs''"

text \<open>\<^verbatim>\<open>NewService\<close>: the loop stores a new stack under each name of \<^verbatim>\<open>vars\<close>; the
  fields not named in the struct literal have Go's zero values.\<close>

definition NewService :: "'f deps \<Rightarrow> URL \<Rightarrow> VarName list \<Rightarrow> 'f Service" where
  "NewService D url vs =
     \<lparr>URL = url,
      Name = Host url,
      Cmdline = [],
      vars = vs,
      stacks = fold (\<lambda>name values. values(name \<mapsto> NewStack (StackLen D))) vs Map.empty,
      Err = None,
      Restarted = False,
      UptimeCounter = 0\<rparr>"

text \<open>\<^verbatim>\<open>strings.Join\<close> of the Go standard library.\<close>

fun Join :: "string list \<Rightarrow> string \<Rightarrow> string" where
  "Join [] sep = []"
| "Join [x] sep = x"
| "Join (x # y # ys) sep = x @ sep @ Join (y # ys) sep"

text \<open>\<^verbatim>\<open>guessValue\<close>: the chain of \<^verbatim>\<open>if ... else if\<close> in the order of the source.\<close>

definition guessValue :: "'f deps \<Rightarrow> 'f jason_Value \<Rightarrow> 'f go_value option" where
  "guessValue D val =
     (case Int64 val of Inr v \<Rightarrow> Some (GoInt64 v) | Inl _ \<Rightarrow>
      (case Float64 val of Inr v \<Rightarrow> Some (GoFloat64 v) | Inl _ \<Rightarrow>
       (case Boolean val of Inr v \<Rightarrow> Some (GoBool v) | Inl _ \<Rightarrow>
        (case String val of Inr v \<Rightarrow> Some (GoString v) | Inl _ \<Rightarrow>
         (case Array val of
            Inr v \<Rightarrow>
              if length v = 0 then Some (GoInt 0)
              else
                let avg = averageJason D v
                in (case Int64 (v ! 0) of
                      Inr _ \<Rightarrow> Some (GoInt64 (toInt64 D avg))
                    | Inl _ \<Rightarrow> Some (GoFloat64 avg))
          | Inl _ \<Rightarrow> None)))))"

text \<open>\<^verbatim>\<open>Update\<close> runs four blocks one after the other; each is a function on the
  state. \<open>check_restart\<close> is lines 88-92: the restart check on the outcome of the
  fetch, then \<^verbatim>\<open>s.Err = err\<close>.\<close>

definition check_restart :: "'f Service \<Rightarrow> error option \<Rightarrow> 'f Service" where
  "check_restart s err =
     (let s1 = (if Err s \<noteq> None \<and> err = None then s\<lparr>Restarted := True\<rparr> else s)
      in s1\<lparr>Err := err\<rparr>)"

text \<open>Lines 94-105: the uptime counter.\<close>

definition update_uptime :: "'f deps \<Rightarrow> 'f Expvar \<Rightarrow> 'f Service \<Rightarrow> 'f Service" where
  "update_uptime D expvar s =
     (case GetInt64 expvar (uptimeCounter D) of
        Inl err \<Rightarrow> s\<lparr>Err := Some err\<rparr>
      | Inr c \<Rightarrow>
          (let s1 = (if sint (UptimeCounter s) > sint c then s\<lparr>Restarted := True\<rparr> else s)
           in s1\<lparr>UptimeCounter := c\<rparr>))"

text \<open>Lines 107-116: command line and name.\<close>

definition update_cmdline :: "'f deps \<Rightarrow> 'f Expvar \<Rightarrow> 'f Service \<Rightarrow> 'f Service" where
  "update_cmdline D expvar s =
     (if length (Cmdline s) = 0 then
        (case GetStringArray expvar [''cmdline''] of
           Inl err \<Rightarrow> s\<lparr>Err := Some err\<rparr>
         | Inr cmdline \<Rightarrow> s\<lparr>Cmdline := Join cmdline '' '', Name := BaseCommand D cmdline\<rparr>)
      else s)"

text \<open>Lines 118-129: the body of the loop over \<^verbatim>\<open>s.stacks\<close>, for one entry.\<close>

definition update_stack :: "'f deps \<Rightarrow> 'f Expvar \<Rightarrow> VarName \<Rightarrow> 'f Stack \<Rightarrow> 'f Stack" where
  "update_stack D expvar name stack =
     (case GetValue expvar (ToSlice D name) of
        Inl err \<Rightarrow> Push stack None
      | Inr val \<Rightarrow>
          (case guessValue D val of
             Some v \<Rightarrow> Push stack (Some v)
           | None \<Rightarrow> stack))"

text \<open>The loop visits every entry of the map once and an iteration writes to the stack
  of its own entry only, so the order of the visits has no effect.\<close>

definition update_stacks :: "'f deps \<Rightarrow> 'f Expvar \<Rightarrow> 'f Service \<Rightarrow> 'f Service" where
  "update_stacks D expvar s =
     s\<lparr>stacks := (\<lambda>name. map_option (update_stack D expvar name) (stacks s name))\<rparr>"

text \<open>\<^verbatim>\<open>Update\<close>. What \<^verbatim>\<open>FetchExpvar(s.URL)\<close> returned, a document and an error, is the
  input of the tick: the source uses the document whether or not the error is
  \<^verbatim>\<open>nil\<close>.\<close>

definition Update :: "'f deps \<Rightarrow> 'f Service \<Rightarrow> 'f Expvar \<times> error option \<Rightarrow> 'f Service" where
  "Update D s fetched =
     (case fetched of (expvar, err) \<Rightarrow>
        update_stacks D expvar
          (update_cmdline D expvar
            (update_uptime D expvar
              (check_restart s err))))"

text \<open>The scheduler calls \<^verbatim>\<open>Update\<close> once per tick.\<close>

fun Updates :: "'f deps \<Rightarrow> 'f Service \<Rightarrow> ('f Expvar \<times> error option) list \<Rightarrow> 'f Service" where
  "Updates D s [] = s"
| "Updates D s (t # ts) = Updates D (Update D s t) ts"

text \<open>\<^verbatim>\<open>Service.Value\<close>\<close>

definition Value :: "'f deps \<Rightarrow> 'f Service \<Rightarrow> VarName \<Rightarrow> string" where
  "Value D s name =
     (if Err s \<noteq> None then ''N/A''
      else
        (case stacks s name of
           None \<Rightarrow> ''N/A''
         | Some val \<Rightarrow>
             (case Front val of
                None \<Rightarrow> ''N/A''
              | Some v \<Rightarrow> Format D v (Kind D name))))"

subsection \<open>The functions of the other files, as the specification describes them\<close>

text \<open>The theorems below hold for every value of the parameters \<open>deps\<close>. To evaluate the
  model on concrete documents, the parameters are given the behaviour the specification
  describes, with \<^verbatim>\<open>float64\<close> read as a real number (exact arithmetic).\<close>

text \<open>Modelled from the spec: \<^verbatim>\<open>VarName.ToSlice\<close> is not in \<^verbatim>\<open>service.go\<close>. Section 4.1:
  the name is split into its path segments at the separator, the dot of
  \<^verbatim>\<open>memstats.PauseTotalNs\<close>.\<close>

fun split_on :: "char \<Rightarrow> string \<Rightarrow> string list" where
  "split_on c [] = [[]]"
| "split_on c (x # xs) =
     (if x = c then [] # split_on c xs
      else (case split_on c xs of [] \<Rightarrow> [[x]] | w # ws \<Rightarrow> (x # w) # ws))"

text \<open>Modelled from the spec: \<^verbatim>\<open>BaseCommand\<close> is not in \<^verbatim>\<open>service.go\<close>. Section 4.4,
  step 3: the short name is the base name of the first token, its path stripped.\<close>

definition base_command :: "string list \<Rightarrow> string" where
  "base_command cmdline = (case cmdline of [] \<Rightarrow> [] | x # _ \<Rightarrow> last (split_on CHR ''/'' x))"

text \<open>Modelled from the spec: \<^verbatim>\<open>averageJason\<close> is not in \<^verbatim>\<open>service.go\<close>. Section 4.3,
  array rule: the arithmetic mean of the elements, each read as an integer and
  otherwise as a float. The specification leaves an element that is neither
  undefined; here it counts as 0.\<close>

definition element_number :: "real jason_Value \<Rightarrow> real" where
  "element_number v =
     (case Int64 v of
        Inr i \<Rightarrow> of_int (sint i)
      | Inl _ \<Rightarrow> (case Float64 v of Inr f \<Rightarrow> f | Inl _ \<Rightarrow> 0))"

definition arithmetic_mean :: "real jason_Value list \<Rightarrow> real" where
  "arithmetic_mean vals = sum_list (map element_number vals) / of_nat (length vals)"

text \<open>Go's conversion \<^verbatim>\<open>int64(f)\<close> of a float discards the fraction (truncation towards
  zero). On exact reals, and meaningful only for a value in the range of \<^verbatim>\<open>int64\<close>:
  out of range Go's result depends on the implementation, and this function wraps.\<close>

definition truncate64 :: "real \<Rightarrow> int64" where
  "truncate64 q = word_of_int (if 0 \<le> q then \<lfloor>q\<rfloor> else - \<lfloor>- q\<rfloor>)"

text \<open>Modelled from the spec: \<^verbatim>\<open>Format\<close> and \<^verbatim>\<open>VarName.Kind\<close> are not in
  \<^verbatim>\<open>service.go\<close>. Section 6: \<^verbatim>\<open>Format\<close> is total and renders a value plainly when
  the kind is none; section 4.1: the kind is none when the name carries no annotation.
  Only that case is modelled: the kind is always none (the empty string), an integer
  is rendered in decimal, a float by its integer part.\<close>

fun decimal :: "nat \<Rightarrow> string" where
  "decimal n =
     (if n < 10 then [''0123456789'' ! n]
      else decimal (n div 10) @ [''0123456789'' ! (n mod 10)])"

declare decimal.simps [simp del]

definition show_int :: "int \<Rightarrow> string" where
  "show_int i = (if i < 0 then CHR ''-'' # decimal (nat (- i)) else decimal (nat i))"

fun plain_format :: "real go_value \<Rightarrow> string \<Rightarrow> string" where
  "plain_format (GoInt i) kind = show_int i"
| "plain_format (GoInt64 w) kind = show_int (sint w)"
| "plain_format (GoFloat64 f) kind = show_int (sint (truncate64 f))"
| "plain_format (GoBool b) kind = (if b then ''true'' else ''false'')"
| "plain_format (GoString s) kind = s"

definition spec_deps :: "real deps" where
  "spec_deps =
     \<lparr>ToSlice = split_on CHR ''.'',
      Kind = (\<lambda>name. []),
      Format = plain_format,
      BaseCommand = base_command,
      averageJason = arithmetic_mean,
      toInt64 = truncate64,
      StackLen = 3\<rparr>"

subsection \<open>Concrete JSON values and documents\<close>

text \<open>What the conversions of the library \<^verbatim>\<open>jason\<close> return on a JSON number without
  fraction, a number with a fraction, a boolean, a string, an array, and on
  \<^verbatim>\<open>null\<close> or an object: exactly one family of conversions succeeds, and an integer
  literal in the range of \<^verbatim>\<open>int64\<close> converts both to \<^verbatim>\<open>int64\<close> and to
  \<^verbatim>\<open>float64\<close>; outside that range the conversion to \<^verbatim>\<open>int64\<close> fails. Floats are
  exact reals here, so these values stand for literals that \<^verbatim>\<open>float64\<close> holds
  exactly.\<close>

definition json_int :: "int \<Rightarrow> real jason_Value" where
  "json_int i =
     JValue
       (if - (2 ^ 63) \<le> i \<and> i < 2 ^ 63 then Inr (word_of_int i)
        else Inl (Error ''value out of range''))
       (Inr (of_int i)) (Inl (Error ''not a bool''))
       (Inl (Error ''not a string'')) (Inl (Error ''not an array''))"

definition json_float :: "real \<Rightarrow> real jason_Value" where
  "json_float f =
     JValue (Inl (Error ''invalid syntax'')) (Inr f) (Inl (Error ''not a bool''))
       (Inl (Error ''not a string'')) (Inl (Error ''not an array''))"

definition json_bool :: "bool \<Rightarrow> real jason_Value" where
  "json_bool b =
     JValue (Inl (Error ''not a number'')) (Inl (Error ''not a number'')) (Inr b)
       (Inl (Error ''not a string'')) (Inl (Error ''not an array''))"

definition json_string :: "string \<Rightarrow> real jason_Value" where
  "json_string s =
     JValue (Inl (Error ''not a number'')) (Inl (Error ''not a number''))
       (Inl (Error ''not a bool'')) (Inr s) (Inl (Error ''not an array''))"

definition json_array :: "real jason_Value list \<Rightarrow> real jason_Value" where
  "json_array vs =
     JValue (Inl (Error ''not a number'')) (Inl (Error ''not a number''))
       (Inl (Error ''not a bool'')) (Inl (Error ''not a string'')) (Inr vs)"

definition json_null :: "real jason_Value" where
  "json_null =
     JValue (Inl (Error ''not a number'')) (Inl (Error ''not a number''))
       (Inl (Error ''not a bool'')) (Inl (Error ''not a string''))
       (Inl (Error ''not an array''))"

text \<open>A document given by the values at its leaf paths; a path that is not listed,
  also the prefix of a listed one, has no value here. \<^verbatim>\<open>GetStringArray\<close> needs an
  array of strings.\<close>

fun strings_of :: "real jason_Value list \<Rightarrow> error + string list" where
  "strings_of [] = Inr []"
| "strings_of (v # vs) =
     (case String v of
        Inl e \<Rightarrow> Inl e
      | Inr s \<Rightarrow> (case strings_of vs of Inl e \<Rightarrow> Inl e | Inr ss \<Rightarrow> Inr (s # ss)))"

definition document :: "(string list \<times> real jason_Value) list \<Rightarrow> real Expvar" where
  "document kvs =
     \<lparr>GetInt64 = (\<lambda>path. case map_of kvs path of
                     None \<Rightarrow> Inl (Error ''key not found'')
                   | Some v \<Rightarrow> Int64 v),
      GetStringArray = (\<lambda>path. case map_of kvs path of
                     None \<Rightarrow> Inl (Error ''key not found'')
                   | Some v \<Rightarrow> (case Array v of Inl e \<Rightarrow> Inl e | Inr vs \<Rightarrow> strings_of vs)),
      GetValue = (\<lambda>path. case map_of kvs path of
                     None \<Rightarrow> Inl (Error ''key not found'')
                   | Some v \<Rightarrow> Inr v)\<rparr>"

text \<open>A healthy document with the given pause counter, and the three kinds of tick
  used in the examples: a fetch that succeeds, a fetch that fails (with the empty
  document) and a service started from the URL with two tracked variables.\<close>

definition healthy_doc :: "int \<Rightarrow> real Expvar" where
  "healthy_doc c =
     document
       [([''memstats'', ''PauseTotalNs''], json_int c),
        ([''cmdline''], json_array [json_string ''/usr/bin/app'', json_string ''-v'']),
        ([''memstats'', ''Alloc''], json_int 4096),
        ([''version''], json_string ''go1.5'')]"

definition tick_ok :: "int \<Rightarrow> real Expvar \<times> error option" where
  "tick_ok c = (healthy_doc c, None)"

definition tick_failed :: "real Expvar \<times> error option" where
  "tick_failed = (document [], Some (Error ''connection refused''))"

definition service0 :: "real Service" where
  "service0 =
     NewService spec_deps \<lparr>Scheme = ''http'', Host = ''localhost:1234'', Path = ''/debug/vars''\<rparr>
       [''memstats.Alloc'', ''version'']"

text \<open>A document whose command line differs from the one of \<open>healthy_doc\<close>.\<close>

definition renamed_doc :: "real Expvar" where
  "renamed_doc =
     document
       [([''memstats'', ''PauseTotalNs''], json_int 300),
        ([''cmdline''], json_array [json_string ''/opt/other'']),
        ([''memstats'', ''Alloc''], json_int 1)]"

section \<open>Properties\<close>

subsection \<open>Unfolding rules for concrete evaluation\<close>

lemmas json_defs = json_int_def json_float_def json_bool_def json_string_def json_array_def
  json_null_def

lemmas fixture_defs = json_defs spec_deps_def document_def healthy_doc_def renamed_doc_def
  tick_ok_def tick_failed_def service0_def NewService_def NewStack_def base_command_def

lemmas Update_defs = Update_def check_restart_def update_uptime_def update_cmdline_def
  update_stacks_def update_stack_def uptimeCounter_def guessValue_def Push_def Let_def

subsection \<open>What each block of \<^verbatim>\<open>Update\<close> does to each field\<close>

lemma Err_update_stacks: "Err (update_stacks D expvar s) = Err s"
  by (simp add: update_stacks_def)

lemma Restarted_check_restart:
  "Restarted (check_restart s err) = (Restarted s \<or> (Err s \<noteq> None \<and> err = None))"
  by (auto simp: check_restart_def)

lemma UptimeCounter_check_restart: "UptimeCounter (check_restart s err) = UptimeCounter s"
  by (simp add: check_restart_def)

lemma Cmdline_check_restart: "Cmdline (check_restart s err) = Cmdline s"
  by (simp add: check_restart_def)

lemma Restarted_update_uptime:
  "Restarted (update_uptime D expvar s) =
     (Restarted s \<or> (\<exists>c. GetInt64 expvar (uptimeCounter D) = Inr c \<and> sint c < sint (UptimeCounter s)))"
  by (simp add: update_uptime_def split: sum.split)

lemma Restarted_update_cmdline: "Restarted (update_cmdline D expvar s) = Restarted s"
  by (simp add: update_cmdline_def split: sum.split)

lemma Restarted_update_stacks: "Restarted (update_stacks D expvar s) = Restarted s"
  by (simp add: update_stacks_def)

lemma Restarted_Update:
  "Restarted (Update D s (expvar, err)) =
     (Restarted s \<or> (Err s \<noteq> None \<and> err = None) \<or>
      (\<exists>c. GetInt64 expvar (uptimeCounter D) = Inr c \<and> sint c < sint (UptimeCounter s)))"
  by (simp add: Update_def Restarted_update_stacks Restarted_update_cmdline
      Restarted_update_uptime Restarted_check_restart UptimeCounter_check_restart disj_assoc)

lemma Restarted_Update_mono: "Restarted s \<Longrightarrow> Restarted (Update D s t)"
  by (cases t) (simp add: Restarted_Update)

lemma UptimeCounter_update_uptime:
  "GetInt64 expvar (uptimeCounter D) = Inr c \<Longrightarrow> UptimeCounter (update_uptime D expvar s) = c"
  by (simp add: update_uptime_def)

lemma UptimeCounter_update_cmdline: "UptimeCounter (update_cmdline D expvar s) = UptimeCounter s"
  by (simp add: update_cmdline_def split: sum.split)

lemma UptimeCounter_update_stacks: "UptimeCounter (update_stacks D expvar s) = UptimeCounter s"
  by (simp add: update_stacks_def)

lemma UptimeCounter_Update:
  "GetInt64 expvar (uptimeCounter D) = Inr c \<Longrightarrow> UptimeCounter (Update D s (expvar, err)) = c"
  by (simp add: Update_def UptimeCounter_update_stacks UptimeCounter_update_cmdline
      UptimeCounter_update_uptime)

lemma Cmdline_Name_Update:
  "Cmdline s \<noteq> [] \<Longrightarrow> Cmdline (Update D s t) = Cmdline s \<and> Name (Update D s t) = Name s"
  by (cases t) (simp add: Update_def update_stacks_def update_cmdline_def update_uptime_def
      check_restart_def Let_def split: sum.split)

lemma Cmdline_Name_Updates:
  "Cmdline s \<noteq> [] \<Longrightarrow> Cmdline (Updates D s ts) = Cmdline s \<and> Name (Updates D s ts) = Name s"
  by (induction ts arbitrary: s) (simp_all add: Cmdline_Name_Update)

lemma Cmdline_update_uptime: "Cmdline (update_uptime D expvar s) = Cmdline s"
  by (simp add: update_uptime_def Let_def split: sum.split)

lemma update_stack_ignores_cmdline:
  "update_stack D (expvar\<lparr>GetStringArray := g\<rparr>) name = update_stack D expvar name"
  by (rule ext) (simp add: update_stack_def)

lemma update_uptime_ignores_cmdline:
  "update_uptime D (expvar\<lparr>GetStringArray := g\<rparr>) s = update_uptime D expvar s"
  by (simp add: update_uptime_def)

lemma update_cmdline_resolved:
  "Cmdline s \<noteq> [] \<Longrightarrow> update_cmdline D expvar s = s"
  by (simp add: update_cmdline_def)

lemma Update_ignores_cmdline:
  assumes "Cmdline s \<noteq> []"
  shows "Update D s (expvar\<lparr>GetStringArray := g\<rparr>, err) = Update D s (expvar, err)"
proof -
  from assms have "Cmdline (update_uptime D expvar (check_restart s err)) \<noteq> []"
    by (simp add: Cmdline_update_uptime Cmdline_check_restart)
  then show ?thesis
    by (simp add: Update_def update_uptime_ignores_cmdline update_cmdline_resolved
        update_stacks_def update_stack_ignores_cmdline)
qed

lemma stacks_Update:
  "stacks (Update D s (expvar, err)) name = map_option (update_stack D expvar name) (stacks s name)"
  by (simp add: Update_def update_stacks_def update_cmdline_def update_uptime_def
      check_restart_def Let_def split: sum.split)

lemma Err_Update:
  "Err (Update D s (expvar, err)) =
     Err (update_cmdline D expvar (update_uptime D expvar (check_restart s err)))"
  by (simp add: Update_def Err_update_stacks)

lemma Err_update_cmdline_keeps:
  "Err s \<noteq> None \<Longrightarrow> Err (update_cmdline D expvar s) \<noteq> None"
  by (simp add: update_cmdline_def split: sum.split)

lemma Err_update_uptime_fail:
  "GetInt64 expvar (uptimeCounter D) = Inl e \<Longrightarrow> Err (update_uptime D expvar s) = Some e"
  by (simp add: update_uptime_def)

lemma Err_update_cmdline_fail:
  "Cmdline s = [] \<Longrightarrow> GetStringArray expvar [''cmdline''] = Inl e \<Longrightarrow>
     Err (update_cmdline D expvar s) = Some e"
  by (simp add: update_cmdline_def)

lemma Err_Update_missing:
  assumes "GetInt64 expvar (uptimeCounter D) = Inl e \<or>
           (Cmdline s = [] \<and> GetStringArray expvar [''cmdline''] = Inl e')"
  shows "Err (Update D s (expvar, err)) \<noteq> None"
  using assms
proof
  assume "GetInt64 expvar (uptimeCounter D) = Inl e"
  then have "Err (update_uptime D expvar (check_restart s err)) \<noteq> None"
    by (simp add: Err_update_uptime_fail)
  then show ?thesis
    by (simp add: Err_Update Err_update_cmdline_keeps)
next
  assume a: "Cmdline s = [] \<and> GetStringArray expvar [''cmdline''] = Inl e'"
  then have "Cmdline (update_uptime D expvar (check_restart s err)) = []"
    by (simp add: Cmdline_update_uptime Cmdline_check_restart)
  with a show ?thesis
    by (simp add: Err_Update Err_update_cmdline_fail)
qed

subsection \<open>The restart flag\<close>

text \<open>Claim C1, as the specification states it: when the fetch of a tick succeeds, with
  \<^verbatim>\<open>Err\<close> \<^verbatim>\<open>nil\<close> afterwards, and the fetch of the next tick fails, \<^verbatim>\<open>Restarted\<close> is
  true after the second tick. The source does not do that: the check
  \<^verbatim>\<open>s.Err != nil && err == nil\<close> fires when a failing service answers again, not when a
  healthy one stops answering. A new service that answers with counter 100 and then
  refuses the connection is not marked as restarted.\<close>

theorem Update_failed_fetch_counterexample:
  "snd (tick_ok 100) = None \<and> Err (Update spec_deps service0 (tick_ok 100)) = None \<and>
   snd tick_failed \<noteq> None \<and>
   \<not> Restarted (Update spec_deps (Update spec_deps service0 (tick_ok 100)) tick_failed)"
  by (simp add: fixture_defs Update_defs)

text \<open>Claim C1, amended: when the fetch of a tick succeeds, with \<^verbatim>\<open>Err\<close> \<^verbatim>\<open>nil\<close>
  afterwards, and the fetch of the next tick fails, the failure does not set
  \<^verbatim>\<open>Restarted\<close>: after the second tick the flag is true exactly when it was true after
  the first tick or the counter read from the document of the second tick is lower than
  the stored \<^verbatim>\<open>UptimeCounter\<close>.\<close>

theorem Update_failed_fetch_after_healthy_tick:
  assumes "snd t1 = None" and "Err (Update D s t1) = None" and "err \<noteq> None"
  shows "Restarted (Update D (Update D s t1) (expvar, err)) =
           (Restarted (Update D s t1) \<or>
            (\<exists>c. GetInt64 expvar (uptimeCounter D) = Inr c \<and>
                 sint c < sint (UptimeCounter (Update D s t1))))"
  using assms by (simp add: Restarted_Update)

theorem Update_failed_fetch_after_healthy_tick_witness:
  "snd (tick_ok 250) = None \<and> Err (Update spec_deps service0 (tick_ok 250)) = None \<and>
   Some (Error ''timeout'') \<noteq> None \<and>
   Restarted (Update spec_deps (Update spec_deps service0 (tick_ok 250))
               (document [], Some (Error ''timeout''))) =
     (Restarted (Update spec_deps service0 (tick_ok 250)) \<or>
      (\<exists>c. GetInt64 (document []) (uptimeCounter spec_deps) = Inr c \<and>
           sint c < sint (UptimeCounter (Update spec_deps service0 (tick_ok 250)))))"
proof -
  have h1: "snd (tick_ok 250) = None"
    by (simp add: tick_ok_def)
  have h2: "Err (Update spec_deps service0 (tick_ok 250)) = None"
    by (simp add: fixture_defs Update_defs)
  have h3: "Some (Error ''timeout'') \<noteq> None"
    by simp
  from Update_failed_fetch_after_healthy_tick [OF h1 h2 h3] h1 h2 h3
  show ?thesis by blast
qed

text \<open>Claim C2: \<^verbatim>\<open>Restarted\<close> is sticky. Once it is true, it is true after any number of
  further calls of \<^verbatim>\<open>Update\<close>, whatever the fetches return and whatever counters are
  read. \<^verbatim>\<open>Update\<close> is the only operation of \<^verbatim>\<open>service.go\<close> that writes the field after
  construction.\<close>

theorem Restarted_sticky: "Restarted s \<Longrightarrow> Restarted (Updates D s ts)"
  by (induction ts arbitrary: s) (simp_all add: Restarted_Update_mono)

theorem Restarted_sticky_witness:
  "Restarted (Updates spec_deps service0 [tick_ok 100, tick_ok 250, tick_ok 40]) \<and>
   Restarted (Updates spec_deps
      (Updates spec_deps service0 [tick_ok 100, tick_ok 250, tick_ok 40])
      [tick_ok 50, tick_failed, tick_ok 60])"
proof -
  have h: "Restarted (Updates spec_deps service0 [tick_ok 100, tick_ok 250, tick_ok 40])"
    by (simp add: fixture_defs Update_defs)
  from h Restarted_sticky [OF h] show ?thesis by blast
qed

text \<open>Claim C3: on a tick where the uptime counter is read as \<open>c\<close>, \<^verbatim>\<open>Restarted\<close> becomes
  true if the stored \<^verbatim>\<open>UptimeCounter\<close> is strictly greater than \<open>c\<close>, and is otherwise
  left by the counter block as the restart check on the fetch left it; in both cases the
  stored counter becomes \<open>c\<close>, also on the first read. The last two conjuncts say the
  same of the counter block alone. The example is the sequence 100, 250, 40 of the
  specification.\<close>

theorem Update_uptime_counter:
  assumes "GetInt64 expvar (uptimeCounter D) = Inr c"
  shows "(sint c < sint (UptimeCounter s) \<longrightarrow> Restarted (Update D s (expvar, err))) \<and>
         (\<not> sint c < sint (UptimeCounter s) \<longrightarrow>
            Restarted (Update D s (expvar, err)) = Restarted (check_restart s err)) \<and>
         UptimeCounter (Update D s (expvar, err)) = c \<and>
         Restarted (update_uptime D expvar s) = (Restarted s \<or> sint c < sint (UptimeCounter s)) \<and>
         UptimeCounter (update_uptime D expvar s) = c"
  using assms
  by (auto simp: Restarted_Update Restarted_check_restart Restarted_update_uptime
      UptimeCounter_update_uptime UptimeCounter_Update)

theorem Update_uptime_counter_witness:
  "GetInt64 (healthy_doc 40) (uptimeCounter spec_deps) = Inr 40 \<and>
   UptimeCounter (Updates spec_deps service0 [tick_ok 100, tick_ok 250]) = 250 \<and>
   \<not> Restarted (Updates spec_deps service0 [tick_ok 100, tick_ok 250]) \<and>
   Restarted (Update spec_deps (Updates spec_deps service0 [tick_ok 100, tick_ok 250])
                (healthy_doc 40, None)) \<and>
   UptimeCounter (Update spec_deps (Updates spec_deps service0 [tick_ok 100, tick_ok 250])
                (healthy_doc 40, None)) = 40"
proof -
  have h: "GetInt64 (healthy_doc 40) (uptimeCounter spec_deps) = Inr 40"
    by (simp add: fixture_defs uptimeCounter_def)
  have c: "UptimeCounter (Updates spec_deps service0 [tick_ok 100, tick_ok 250]) = 250"
    by (simp add: fixture_defs Update_defs)
  have r: "\<not> Restarted (Updates spec_deps service0 [tick_ok 100, tick_ok 250])"
    by (simp add: fixture_defs Update_defs)
  from Update_uptime_counter [OF h, of "Updates spec_deps service0 [tick_ok 100, tick_ok 250]" None]
    h c r
  show ?thesis by simp
qed

text \<open>Claim C9: the restart check on the fetch sets \<^verbatim>\<open>Restarted\<close> on a recovery, when the
  previous tick left \<^verbatim>\<open>Err\<close> set and the fetch of this tick succeeds; when the previous
  tick left \<^verbatim>\<open>Err\<close> \<^verbatim>\<open>nil\<close> and the fetch fails, that check leaves the flag as it
  was.\<close>

theorem Restarted_on_recovery:
  "(Err s \<noteq> None \<and> err = None \<longrightarrow> Restarted (Update D s (expvar, err))) \<and>
   (Err s = None \<and> err \<noteq> None \<longrightarrow> Restarted (check_restart s err) = Restarted s)"
  by (simp add: Restarted_Update Restarted_check_restart)

theorem Restarted_on_recovery_witness:
  "Err (Update spec_deps service0 tick_failed) \<noteq> None \<and>
   \<not> Restarted (Update spec_deps service0 tick_failed) \<and>
   Restarted (Update spec_deps (Update spec_deps service0 tick_failed) (healthy_doc 100, None)) \<and>
   Err (Update spec_deps service0 (tick_ok 100)) = None \<and>
   Restarted (check_restart (Update spec_deps service0 (tick_ok 100)) (Some (Error ''timeout'')))
     = Restarted (Update spec_deps service0 (tick_ok 100))"
proof -
  have e: "Err (Update spec_deps service0 tick_failed) \<noteq> None"
    by (simp add: fixture_defs Update_defs)
  have r: "\<not> Restarted (Update spec_deps service0 tick_failed)"
    by (simp add: fixture_defs Update_defs)
  have ok: "Err (Update spec_deps service0 (tick_ok 100)) = None"
    by (simp add: fixture_defs Update_defs)
  from Restarted_on_recovery [of "Update spec_deps service0 tick_failed" None spec_deps
      "healthy_doc 100"]
    Restarted_on_recovery [of "Update spec_deps service0 (tick_ok 100)"
      "Some (Error ''timeout'')" spec_deps "healthy_doc 100"]
    e r ok
  show ?thesis by simp
qed

subsection \<open>\<^verbatim>\<open>guessValue\<close>\<close>

text \<open>Claim C4: \<^verbatim>\<open>guessValue\<close> is a function of its argument and tries the conversions in
  the order 64-bit integer, 64-bit float, boolean, string, array; the first that succeeds
  decides the result, and a value on which all five fail gives \<^verbatim>\<open>nil\<close>. When the array
  conversion is the first to succeed the result is the interpretation of that array: the
  integer 0 for the empty array, and otherwise the average \<^verbatim>\<open>averageJason\<close> computes,
  as an \<^verbatim>\<open>int64\<close> when the first element converts to one and as a float when not.\<close>

theorem guessValue_priority:
  "(Int64 val = Inr i \<longrightarrow> guessValue D val = Some (GoInt64 i)) \<and>
   (isl (Int64 val) \<and> Float64 val = Inr f \<longrightarrow> guessValue D val = Some (GoFloat64 f)) \<and>
   (isl (Int64 val) \<and> isl (Float64 val) \<and> Boolean val = Inr b \<longrightarrow>
      guessValue D val = Some (GoBool b)) \<and>
   (isl (Int64 val) \<and> isl (Float64 val) \<and> isl (Boolean val) \<and> String val = Inr str \<longrightarrow>
      guessValue D val = Some (GoString str)) \<and>
   (isl (Int64 val) \<and> isl (Float64 val) \<and> isl (Boolean val) \<and> isl (String val) \<and>
    Array val = Inr [] \<longrightarrow> guessValue D val = Some (GoInt 0)) \<and>
   (isl (Int64 val) \<and> isl (Float64 val) \<and> isl (Boolean val) \<and> isl (String val) \<and>
    Array val = Inr (x # xs) \<and> Int64 x = Inr j \<longrightarrow>
      guessValue D val = Some (GoInt64 (toInt64 D (averageJason D (x # xs))))) \<and>
   (isl (Int64 val) \<and> isl (Float64 val) \<and> isl (Boolean val) \<and> isl (String val) \<and>
    Array val = Inr (y # ys) \<and> isl (Int64 y) \<longrightarrow>
      guessValue D val = Some (GoFloat64 (averageJason D (y # ys)))) \<and>
   (isl (Int64 val) \<and> isl (Float64 val) \<and> isl (Boolean val) \<and> isl (String val) \<and>
    isl (Array val) \<longrightarrow> guessValue D val = None)"
  by (auto simp: guessValue_def Let_def isl_def split: sum.split)

theorem guessValue_priority_witness:
  "guessValue spec_deps (json_int 5) = Some (GoInt64 5) \<and>
   guessValue spec_deps (json_float (3 / 2)) = Some (GoFloat64 (3 / 2)) \<and>
   guessValue spec_deps (json_bool True) = Some (GoBool True) \<and>
   guessValue spec_deps (json_string ''go1.5'') = Some (GoString ''go1.5'') \<and>
   guessValue spec_deps (json_array []) = Some (GoInt 0) \<and>
   guessValue spec_deps (json_array [json_int 4, json_int 6, json_int 9]) = Some (GoInt64 6) \<and>
   guessValue spec_deps (json_array [json_float (1 / 2), json_int 3]) =
     Some (GoFloat64 (7 / 4)) \<and>
   guessValue spec_deps json_null = None"
proof -
  have 1: "guessValue spec_deps (json_int 5) = Some (GoInt64 5)"
    using guessValue_priority [where val = "json_int 5" and i = 5 and D = spec_deps]
    by (simp add: json_int_def)
  have 2: "guessValue spec_deps (json_float (3 / 2)) = Some (GoFloat64 (3 / 2))"
    using guessValue_priority
      [where val = "json_float (3 / 2)" and f = "3 / 2" and D = spec_deps]
    by (simp add: json_float_def)
  have 3: "guessValue spec_deps (json_bool True) = Some (GoBool True)"
    using guessValue_priority [where val = "json_bool True" and b = True and D = spec_deps]
    by (simp add: json_bool_def)
  have 4: "guessValue spec_deps (json_string ''go1.5'') = Some (GoString ''go1.5'')"
    using guessValue_priority
      [where val = "json_string ''go1.5''" and str = "''go1.5''" and D = spec_deps]
    by (simp add: json_string_def)
  have 5: "guessValue spec_deps (json_array []) = Some (GoInt 0)"
    using guessValue_priority [where val = "json_array []" and D = spec_deps]
    by (simp add: json_array_def)
  have 6: "guessValue spec_deps (json_array [json_int 4, json_int 6, json_int 9]) =
             Some (GoInt64 6)"
    using guessValue_priority
      [where val = "json_array [json_int 4, json_int 6, json_int 9]" and D = spec_deps
        and x = "json_int 4" and xs = "[json_int 6, json_int 9]" and j = 4]
    by (simp add: json_array_def json_int_def spec_deps_def arithmetic_mean_def
        element_number_def truncate64_def)
  have 7: "guessValue spec_deps (json_array [json_float (1 / 2), json_int 3]) =
             Some (GoFloat64 (7 / 4))"
    using guessValue_priority
      [where val = "json_array [json_float (1 / 2), json_int 3]" and D = spec_deps
        and y = "json_float (1 / 2)" and ys = "[json_int 3]"]
    by (simp add: json_array_def json_int_def json_float_def spec_deps_def
        arithmetic_mean_def element_number_def)
  have 8: "guessValue spec_deps json_null = None"
    using guessValue_priority [where val = json_null and D = spec_deps]
    by (simp add: json_null_def)
  from 1 2 3 4 5 6 7 8 show ?thesis by blast
qed

text \<open>Claim C5: for an array (a value on which only the conversion to an array succeeds),
  an empty array gives the integer 0; a non-empty array gives what \<^verbatim>\<open>averageJason\<close>
  computes for it, converted to \<^verbatim>\<open>int64\<close> if and only if the first element converts to
  a 64-bit integer, and kept as a float otherwise. With the arithmetic mean the
  specification describes for \<^verbatim>\<open>averageJason\<close>, the array 1, 2, 3 gives the integer 2
  and the array 1.5, 2.5 gives the float 2.\<close>

theorem guessValue_array:
  assumes "isl (Int64 val)" and "isl (Float64 val)" and "isl (Boolean val)"
    and "isl (String val)" and "Array val = Inr vs"
  shows "guessValue D val =
           (if vs = [] then Some (GoInt 0)
            else if isl (Int64 (hd vs)) then Some (GoFloat64 (averageJason D vs))
            else Some (GoInt64 (toInt64 D (averageJason D vs))))"
  using assms
  by (auto simp: guessValue_def Let_def isl_def hd_conv_nth split: sum.split)

theorem guessValue_array_witness:
  "guessValue spec_deps (json_array []) = Some (GoInt 0) \<and>
   guessValue spec_deps (json_array [json_int 1, json_int 2, json_int 3]) = Some (GoInt64 2) \<and>
   guessValue spec_deps (json_array [json_float (3 / 2), json_float (5 / 2)]) =
     Some (GoFloat64 2) \<and>
   guessValue spec_deps (json_array [json_int 1, json_float (5 / 2)]) = Some (GoInt64 1)"
proof -
  have a: "isl (Int64 (json_array vs))" "isl (Float64 (json_array vs))"
    "isl (Boolean (json_array vs))" "isl (String (json_array vs))"
    "Array (json_array vs) = Inr vs" for vs
    by (simp_all add: json_array_def)
  show ?thesis
    using guessValue_array [OF a [of "[]"], where D = spec_deps]
      guessValue_array [OF a [of "[json_int 1, json_int 2, json_int 3]"], where D = spec_deps]
      guessValue_array [OF a [of "[json_float (3 / 2), json_float (5 / 2)]"],
        where D = spec_deps]
      guessValue_array [OF a [of "[json_int 1, json_float (5 / 2)]"], where D = spec_deps]
    by (simp add: spec_deps_def arithmetic_mean_def element_number_def truncate64_def
        json_int_def json_float_def)
qed

subsection \<open>Command line and name\<close>

text \<open>Claim C6: once \<^verbatim>\<open>Cmdline\<close> is not empty, no later call of \<^verbatim>\<open>Update\<close> changes
  \<^verbatim>\<open>Cmdline\<close> or \<^verbatim>\<open>Name\<close>, whatever command line the documents carry; and the
  document is not even asked for it: replacing what \<^verbatim>\<open>GetStringArray\<close> returns changes
  nothing in the result of the tick.\<close>

theorem Cmdline_resolved_once:
  assumes "Cmdline s \<noteq> []"
  shows "Cmdline (Updates D s ts) = Cmdline s \<and> Name (Updates D s ts) = Name s \<and>
         Update D s (expvar\<lparr>GetStringArray := g\<rparr>, err) = Update D s (expvar, err)"
  using assms by (simp add: Cmdline_Name_Updates Update_ignores_cmdline)

theorem Cmdline_resolved_once_witness:
  "Cmdline (Update spec_deps service0 (tick_ok 100)) = ''/usr/bin/app -v'' \<and>
   Name (Update spec_deps service0 (tick_ok 100)) = ''app'' \<and>
   GetStringArray renamed_doc [''cmdline''] = Inr [''/opt/other''] \<and>
   Cmdline (Updates spec_deps (Update spec_deps service0 (tick_ok 100))
              [(renamed_doc, None), tick_ok 400]) = ''/usr/bin/app -v'' \<and>
   Name (Updates spec_deps (Update spec_deps service0 (tick_ok 100))
              [(renamed_doc, None), tick_ok 400]) = ''app''"
proof -
  have c: "Cmdline (Update spec_deps service0 (tick_ok 100)) = ''/usr/bin/app -v''"
    by (simp add: fixture_defs Update_defs)
  have n: "Name (Update spec_deps service0 (tick_ok 100)) = ''app''"
    by (simp add: fixture_defs Update_defs)
  have g: "GetStringArray renamed_doc [''cmdline''] = Inr [''/opt/other'']"
    by (simp add: fixture_defs)
  have h: "Cmdline (Update spec_deps service0 (tick_ok 100)) \<noteq> []"
    by (simp add: c)
  from Cmdline_resolved_once [OF h, of spec_deps "[(renamed_doc, None), tick_ok 400]"] c n g
  show ?thesis by simp
qed

subsection \<open>The tracked variables\<close>

text \<open>Claim C7: in one tick, for every tracked variable on its own: when the lookup of its
  value fails, \<^verbatim>\<open>nil\<close> is pushed on its stack; when the lookup succeeds and
  \<^verbatim>\<open>guessValue\<close> gives \<^verbatim>\<open>nil\<close>, nothing is pushed and \<^verbatim>\<open>Front\<close> stays what it was;
  when \<^verbatim>\<open>guessValue\<close> gives a value, that value is pushed. The loop does not write
  \<^verbatim>\<open>Err\<close> (it is what the blocks before the loop left) and keeps the set of tracked
  names.\<close>

theorem Update_stacks_per_variable:
  assumes "stacks s name = Some stack"
  shows "(\<forall>e. GetValue expvar (ToSlice D name) = Inl e \<longrightarrow>
            stacks (Update D s (expvar, err)) name = Some (Push stack None)) \<and>
         (\<forall>val. GetValue expvar (ToSlice D name) = Inr val \<and> guessValue D val = None \<longrightarrow>
            stacks (Update D s (expvar, err)) name = Some stack \<and>
            (\<forall>stack'. stacks (Update D s (expvar, err)) name = Some stack' \<longrightarrow>
               Front stack' = Front stack)) \<and>
         (\<forall>val v. GetValue expvar (ToSlice D name) = Inr val \<and> guessValue D val = Some v \<longrightarrow>
            stacks (Update D s (expvar, err)) name = Some (Push stack (Some v))) \<and>
         Err (Update D s (expvar, err)) =
           Err (update_cmdline D expvar (update_uptime D expvar (check_restart s err))) \<and>
         dom (stacks (Update D s (expvar, err))) = dom (stacks s)"
  using assms
  by (auto simp: stacks_Update Err_Update update_stack_def dom_def)

theorem Update_stacks_per_variable_witness:
  "stacks service0 ''memstats.Alloc'' = Some (NewStack 3) \<and>
   stacks (Update spec_deps service0 (document [], None)) ''memstats.Alloc'' =
     Some (Push (NewStack 3) None) \<and>
   stacks (Update spec_deps service0
            (document [([''memstats'', ''Alloc''], json_null)], None)) ''memstats.Alloc'' =
     Some (NewStack 3) \<and>
   stacks (Update spec_deps service0 (healthy_doc 100, None)) ''memstats.Alloc'' =
     Some (Push (NewStack 3) (Some (GoInt64 4096)))"
proof -
  have h: "stacks service0 ''memstats.Alloc'' = Some (NewStack 3)"
    by (simp add: service0_def NewService_def spec_deps_def)
  have g1: "GetValue (document []) (ToSlice spec_deps ''memstats.Alloc'') =
              Inl (Error ''key not found'')"
    by (simp add: document_def spec_deps_def)
  have g2: "GetValue (document [([''memstats'', ''Alloc''], json_null)])
              (ToSlice spec_deps ''memstats.Alloc'') = Inr json_null"
    by (simp add: document_def spec_deps_def)
  have g3: "GetValue (healthy_doc 100) (ToSlice spec_deps ''memstats.Alloc'') =
              Inr (json_int 4096)"
    by (simp add: document_def healthy_doc_def spec_deps_def)
  have n2: "guessValue spec_deps json_null = None"
    by (simp add: guessValue_def json_null_def)
  have n3: "guessValue spec_deps (json_int 4096) = Some (GoInt64 4096)"
    by (simp add: guessValue_def json_int_def)
  have 1: "stacks (Update spec_deps service0 (document [], None)) ''memstats.Alloc'' =
             Some (Push (NewStack 3) None)"
    using Update_stacks_per_variable
      [OF h, where expvar = "document []" and D = spec_deps and err = None] g1
    by blast
  have 2: "stacks (Update spec_deps service0
              (document [([''memstats'', ''Alloc''], json_null)], None)) ''memstats.Alloc'' =
             Some (NewStack 3)"
    using Update_stacks_per_variable
      [OF h, where expvar = "document [([''memstats'', ''Alloc''], json_null)]"
        and D = spec_deps and err = None] g2 n2
    by blast
  have 3: "stacks (Update spec_deps service0 (healthy_doc 100, None)) ''memstats.Alloc'' =
             Some (Push (NewStack 3) (Some (GoInt64 4096)))"
    using Update_stacks_per_variable
      [OF h, where expvar = "healthy_doc 100" and D = spec_deps and err = None] g3 n3
    by blast
  from h 1 2 3 show ?thesis by blast
qed

text \<open>Claim C8: \<^verbatim>\<open>Value\<close> returns \<^verbatim>\<open>"N/A"\<close> when \<^verbatim>\<open>Err\<close> is set, when the name is not
  tracked, and when \<^verbatim>\<open>Front\<close> of the stack is \<^verbatim>\<open>nil\<close>; otherwise it returns \<^verbatim>\<open>Front\<close>
  formatted by \<^verbatim>\<open>Format\<close> with the kind of the name.\<close>

theorem Value_not_available:
  "(Err s \<noteq> None \<longrightarrow> Value D s name = ''N/A'') \<and>
   (stacks s name = None \<longrightarrow> Value D s name = ''N/A'') \<and>
   (\<forall>stack. stacks s name = Some stack \<and> Front stack = None \<longrightarrow> Value D s name = ''N/A'') \<and>
   (\<forall>stack v. Err s = None \<and> stacks s name = Some stack \<and> Front stack = Some v \<longrightarrow>
      Value D s name = Format D v (Kind D name))"
  by (auto simp: Value_def)

theorem Value_not_available_witness:
  "Err (Update spec_deps (Update spec_deps service0 (tick_ok 100)) tick_failed) \<noteq> None \<and>
   Value spec_deps (Update spec_deps (Update spec_deps service0 (tick_ok 100)) tick_failed)
     ''version'' = ''N/A'' \<and>
   Value spec_deps (Update spec_deps service0 (tick_ok 100)) ''goroutines'' = ''N/A'' \<and>
   Value spec_deps service0 ''version'' = ''N/A'' \<and>
   Value spec_deps (Update spec_deps service0 (tick_ok 100)) ''version'' = ''go1.5'' \<and>
   Value spec_deps (Update spec_deps service0 (tick_ok 100)) ''memstats.Alloc'' = ''4096''"
proof -
  have e: "Err (Update spec_deps (Update spec_deps service0 (tick_ok 100)) tick_failed) \<noteq> None"
    by (simp add: fixture_defs Update_defs)
  have u: "stacks (Update spec_deps service0 (tick_ok 100)) ''goroutines'' = None"
    by (simp add: fixture_defs Update_defs)
  have f: "stacks service0 ''version'' = Some (NewStack 3)" "Front (NewStack 3) = None"
    by (simp_all add: fixture_defs Front_def)
  have ok: "Err (Update spec_deps service0 (tick_ok 100)) = None"
    by (simp add: fixture_defs Update_defs)
  have v: "stacks (Update spec_deps service0 (tick_ok 100)) ''version'' =
             Some \<lparr>Values = [Some (GoString ''go1.5'')], Len = 3\<rparr>"
    by (simp add: fixture_defs Update_defs)
  have a: "stacks (Update spec_deps service0 (tick_ok 100)) ''memstats.Alloc'' =
             Some \<lparr>Values = [Some (GoInt64 4096)], Len = 3\<rparr>"
    by (simp add: fixture_defs Update_defs)
  have fr: "Front \<lparr>Values = [Some (GoString ''go1.5'')], Len = 3\<rparr> = Some (GoString ''go1.5'')"
    "Front \<lparr>Values = [Some (GoInt64 4096)], Len = 3\<rparr> = Some (GoInt64 4096)"
    by (simp_all add: Front_def)
  have fm: "Format spec_deps (GoString ''go1.5'') (Kind spec_deps ''version'') = ''go1.5''"
    "Format spec_deps (GoInt64 4096) (Kind spec_deps ''memstats.Alloc'') = ''4096''"
    by (simp_all add: spec_deps_def show_int_def decimal.simps)
  have 1: "Value spec_deps (Update spec_deps (Update spec_deps service0 (tick_ok 100)) tick_failed)
             ''version'' = ''N/A''"
    using Value_not_available
      [where s = "Update spec_deps (Update spec_deps service0 (tick_ok 100)) tick_failed"
        and D = spec_deps and name = "''version''"] e
    by blast
  have 2: "Value spec_deps (Update spec_deps service0 (tick_ok 100)) ''goroutines'' = ''N/A''"
    using Value_not_available [where s = "Update spec_deps service0 (tick_ok 100)"
        and D = spec_deps and name = "''goroutines''"] u
    by blast
  have 3: "Value spec_deps service0 ''version'' = ''N/A''"
    using Value_not_available [where s = service0 and D = spec_deps and name = "''version''"] f
    by blast
  have 4: "Value spec_deps (Update spec_deps service0 (tick_ok 100)) ''version'' = ''go1.5''"
    using Value_not_available [where s = "Update spec_deps service0 (tick_ok 100)"
        and D = spec_deps and name = "''version''"] ok v fr(1) fm(1)
    by metis
  have 5: "Value spec_deps (Update spec_deps service0 (tick_ok 100)) ''memstats.Alloc'' = ''4096''"
    using Value_not_available [where s = "Update spec_deps service0 (tick_ok 100)"
        and D = spec_deps and name = "''memstats.Alloc''"] ok a fr(2) fm(2)
    by metis
  from e 1 2 3 4 5 show ?thesis by blast
qed

text \<open>Claim C10: also when the fetch succeeds, \<^verbatim>\<open>Update\<close> leaves \<^verbatim>\<open>Err\<close> set if the
  uptime counter cannot be read from the document, or if \<^verbatim>\<open>Cmdline\<close> is still empty
  and the command line cannot be read. \<^verbatim>\<open>Value\<close> is then \<^verbatim>\<open>"N/A"\<close> for every name,
  while every stack is updated as on any other tick.\<close>

theorem Update_sets_Err_on_missing_paths:
  assumes "GetInt64 expvar (uptimeCounter D) = Inl e \<or>
           (Cmdline s = [] \<and> GetStringArray expvar [''cmdline''] = Inl e')"
  shows "Err (Update D s (expvar, None)) \<noteq> None \<and>
         (\<forall>name. Value D (Update D s (expvar, None)) name = ''N/A'') \<and>
         (\<forall>name. stacks (Update D s (expvar, None)) name =
                   map_option (update_stack D expvar name) (stacks s name))"
proof -
  have "Err (Update D s (expvar, None)) \<noteq> None"
    using assms by (rule Err_Update_missing)
  then show ?thesis
    by (simp add: Value_def stacks_Update)
qed

theorem Update_sets_Err_on_missing_paths_witness:
  "GetInt64 (document [([''memstats'', ''Alloc''], json_int 7)]) (uptimeCounter spec_deps) =
     Inl (Error ''key not found'') \<and>
   Err (Update spec_deps service0 (document [([''memstats'', ''Alloc''], json_int 7)], None))
     \<noteq> None \<and>
   Value spec_deps
     (Update spec_deps service0 (document [([''memstats'', ''Alloc''], json_int 7)], None))
     ''memstats.Alloc'' = ''N/A'' \<and>
   stacks (Update spec_deps service0 (document [([''memstats'', ''Alloc''], json_int 7)], None))
     ''memstats.Alloc'' = Some \<lparr>Values = [Some (GoInt64 7)], Len = 3\<rparr>"
proof -
  have h: "GetInt64 (document [([''memstats'', ''Alloc''], json_int 7)]) (uptimeCounter spec_deps)
             = Inl (Error ''key not found'')"
    by (simp add: document_def uptimeCounter_def spec_deps_def)
  have s: "map_option (update_stack spec_deps (document [([''memstats'', ''Alloc''], json_int 7)])
               ''memstats.Alloc'') (stacks service0 ''memstats.Alloc'') =
             Some \<lparr>Values = [Some (GoInt64 7)], Len = 3\<rparr>"
    by (simp add: fixture_defs Update_defs)
  from Update_sets_Err_on_missing_paths [OF disjI1, OF h, of service0] h s
  show ?thesis by simp
qed

end
